theory Spec2Isabelle
  imports Main "HOL-Library.Sublist"
begin

section \<open>The authentication and roster store of GigCalendar (src/store/authStore.ts)\<close>

subsection \<open>Data model\<close>

text \<open>
  Modelled from the spec: the declaration of \<^verbatim>\<open>User\<close> lives in \<^verbatim>\<open>../types\<close>, which is not
  part of the sources at hand. Section 3 of the specification lists the fields
  \<^verbatim>\<open>id, name, email, password, role\<close>. The store assigns objects without a
  \<^verbatim>\<open>password\<close> key to places typed \<^verbatim>\<open>User\<close> (the session user, the result of
  \<^verbatim>\<open>getUsers\<close>), so the key is optional: \<open>None\<close> stands for an object that has no
  \<^verbatim>\<open>password\<close> key. The field \<^verbatim>\<open>id\<close> is called \<open>id_u\<close> here, \<open>id\<close> being the identity
  function of HOL.
\<close>

record User =
  id_u :: string
  name :: string
  email :: string
  password :: "string option"
  role :: string

text \<open>
  \<^verbatim>\<open>LoginCredentials\<close> (also from \<^verbatim>\<open>../types\<close>): the two fields that \<^verbatim>\<open>login\<close>
  destructures, suffixed to keep them apart from the fields of \<open>User\<close>.
\<close>

record LoginCredentials =
  email_c :: string
  password_c :: string

text \<open>
  \<^verbatim>\<open>Partial<Omit<User, 'id' | 'role'>>\<close>, the second argument of \<^verbatim>\<open>updateMember\<close>:
  each key is absent (\<open>None\<close>), present with the value \<^verbatim>\<open>undefined\<close> (\<open>Some None\<close>), or
  present with a string (\<open>Some (Some s)\<close>).
\<close>

record MemberUpdates =
  name_upd :: "string option option"
  email_upd :: "string option option"
  password_upd :: "string option option"

text \<open>
  What \<^verbatim>\<open>JSON.stringify\<close> makes of a user object, as the keys of the JSON object
  and their values: a key is left out (\<open>None\<close>) when the object does not have it or
  has \<^verbatim>\<open>undefined\<close> there.
\<close>

record UserJSON =
  id_j :: string
  name_j :: "string option"
  email_j :: "string option"
  password_j :: "string option"
  role_j :: string

definition stringify :: "User \<Rightarrow> UserJSON" where
  "stringify u =
     \<lparr>id_j = id_u u, name_j = Some (name u), email_j = Some (email u),
      password_j = password u, role_j = role u\<rparr>"

text \<open>The data fields of \<^verbatim>\<open>AuthState\<close> (lines 10 to 14); \<open>None\<close> is \<^verbatim>\<open>null\<close>.\<close>

record AuthState =
  user :: "User option"
  isAuthenticated :: bool
  error :: "string option"
  users :: "User list"

subsection \<open>The environment: exceptions, the network, storage and navigation\<close>

text \<open>
  A thrown JavaScript value is an \<^verbatim>\<open>Error\<close> instance with its message, or some
  other value (the \<^verbatim>\<open>instanceof Error\<close> test of line 142 tells them apart).
\<close>

datatype thrown = Error string | NonError

text \<open>
  One call of \<^verbatim>\<open>fetch\<close> either rejects, or resolves to a response with a status
  code whose \<^verbatim>\<open>json()\<close> in turn rejects or resolves to the parsed body.
\<close>

datatype 'b fetch_result = Rejected thrown | Responded nat "thrown + 'b"

text \<open>\<^verbatim>\<open>response.ok\<close>: the status is in the range 200 to 299.\<close>

definition ok :: "nat \<Rightarrow> bool" where
  "ok status = (200 \<le> status \<and> status \<le> 299)"

text \<open>
  What the store does to the outside world is recorded in a log, oldest entry first:
  a request \<open>Fetch m path body\<close> to the URL \<^verbatim>\<open>API_URL\<close> followed by \<open>path\<close>, whose body
  (when there is one) is the JSON of a user object; \<^verbatim>\<open>localStorage.removeItem\<close>; and
  an assignment to \<^verbatim>\<open>window.location.href\<close>. Console output is left out. The
  \<^verbatim>\<open>persist\<close> middleware and the socket library are library code; what they do on
  their own (writing the persisted slice, delivering events) is not part of the log.
\<close>

datatype http_method = GET | POST | PUT | DELETE

datatype effect =
    Fetch http_method string "UserJSON option"
  | RemoveItem string
  | SetHref string

record World = AuthState +
  effects :: "effect list"

definition perform :: "effect \<Rightarrow> World \<Rightarrow> World" where
  "perform e w = w\<lparr>effects := effects w @ [e]\<rparr>"

text \<open>The initial state of the store (lines 37 to 40), with nothing done yet.\<close>

definition initial :: World where
  "initial = \<lparr>user = None, isAuthenticated = False, error = None, users = [], effects = []\<rparr>"

subsection \<open>The JavaScript runtime\<close>

text \<open>
  The store calls three conversions that are built into the JavaScript engine and not
  written in the repository, so the operations take them as a parameter:
  \<^item> \<^verbatim>\<open>String.prototype.toLowerCase\<close> (line 59), the case mapping of Unicode, on
    strings (a character beyond ASCII is the sequence of its bytes);
  \<^item> \<^verbatim>\<open>ToBoolean\<close>, the truth value that \<^verbatim>\<open>||\<close> tests (line 132), and
  \<^item> \<^verbatim>\<open>ToString\<close>, which makes the message of \<^verbatim>\<open>new Error(x)\<close> (line 132),
    both on the values of type \<open>'v\<close>: the JSON values that are neither a string nor
    \<^verbatim>\<open>undefined\<close> (null, booleans, numbers, arrays, objects).
  Whatever is proved for every runtime holds for the one of the engine.
\<close>

record 'v runtime =
  toLowerCase :: "string \<Rightarrow> string"
  toBoolean :: "'v \<Rightarrow> bool"
  toString :: "'v \<Rightarrow> string"

text \<open>
  A value read from a parsed JSON body: \<^verbatim>\<open>undefined\<close> (nothing there), a string, or
  another value.
\<close>

datatype 'v js_value = JSUndefined | JSString string | JSOther 'v

subsection \<open>The operations\<close>

text \<open>\<^verbatim>\<open>setUsers\<close> (line 41).\<close>

definition setUsers :: "User list \<Rightarrow> World \<Rightarrow> World" where
  "setUsers us w = w\<lparr>users := us\<rparr>"

text \<open>
  \<^verbatim>\<open>fetchUsers\<close> (lines 43 to 53). The argument \<open>r\<close> is what the GET request comes
  back with. \<open>fetchUsers_try\<close> is the \<^verbatim>\<open>try\<close> block: \<open>Inl\<close> is the value it throws.
  The result of an asynchronous operation is \<open>Inl\<close> when its promise rejects.
\<close>

definition fetchUsers_try :: "User list fetch_result \<Rightarrow> World \<Rightarrow> thrown + World" where
  "fetchUsers_try r w =
     (case r of
        Rejected e \<Rightarrow> Inl e
      | Responded status js \<Rightarrow>
          if \<not> ok status then Inl (Error ''Failed to fetch users'')
          else (case js of
                  Inl e \<Rightarrow> Inl e
                | Inr us \<Rightarrow> Inr (w\<lparr>users := us\<rparr>)))"

definition fetchUsers :: "User list fetch_result \<Rightarrow> World \<Rightarrow> (thrown + unit) \<times> World" where
  "fetchUsers r w =
     (let w0 = perform (Fetch GET ''/members'' None) w in
      case fetchUsers_try r w0 of
        Inl e \<Rightarrow> (Inr (), w0\<lparr>error := Some ''Failed to fetch users''\<rparr>)
      | Inr w1 \<Rightarrow> (Inr (), w1))"

text \<open>
  \<^verbatim>\<open>login\<close> (lines 55 to 75). \<open>credentials_match\<close> is the predicate given to
  \<^verbatim>\<open>find\<close>, \<open>withoutPassword\<close> the rest pattern \<^verbatim>\<open>{ password: _, ...rest }\<close>.
\<close>

definition credentials_match :: "'v runtime \<Rightarrow> LoginCredentials \<Rightarrow> User \<Rightarrow> bool" where
  "credentials_match rt c u =
     (toLowerCase rt (email u) = toLowerCase rt (email_c c) \<and> password u = Some (password_c c))"

definition withoutPassword :: "User \<Rightarrow> User" where
  "withoutPassword u = u\<lparr>password := None\<rparr>"

definition login_try ::
  "'v runtime \<Rightarrow> User list fetch_result \<Rightarrow> LoginCredentials \<Rightarrow> World
     \<Rightarrow> (thrown + bool) \<times> World" where
  "login_try rt r c w =
     (case fetchUsers r w of
        (Inl e, w1) \<Rightarrow> (Inl e, w1)
      | (Inr _, w1) \<Rightarrow>
          (case List.find (credentials_match rt c) (users w1) of
             Some u \<Rightarrow>
               (Inr True,
                w1\<lparr>user := Some (withoutPassword u), isAuthenticated := True, error := None\<rparr>)
           | None \<Rightarrow> (Inr False, w1\<lparr>error := Some ''Invalid email or password''\<rparr>)))"

definition login ::
  "'v runtime \<Rightarrow> User list fetch_result \<Rightarrow> LoginCredentials \<Rightarrow> World
     \<Rightarrow> (thrown + bool) \<times> World" where
  "login rt r c w =
     (case login_try rt r c w of
        (Inl e, w1) \<Rightarrow> (Inr False, w1\<lparr>error := Some ''Login failed. Please try again.''\<rparr>)
      | (Inr b, w1) \<Rightarrow> (Inr b, w1))"

text \<open>
  \<^verbatim>\<open>logout\<close> (lines 77 to 81): the storage key is removed, the state is reset, and
  the location is assigned, in this order.
\<close>

definition logout :: "World \<Rightarrow> World" where
  "logout w =
     (let w1 = perform (RemoveItem ''auth-storage'') w;
          w2 = w1\<lparr>user := None, isAuthenticated := False, error := None, users := []\<rparr>
      in perform (SetHref ''/'') w2)"

text \<open>\<^verbatim>\<open>clearError\<close> (line 82) and \<^verbatim>\<open>getUsers\<close> (line 83).\<close>

definition clearError :: "World \<Rightarrow> World" where
  "clearError w = w\<lparr>error := None\<rparr>"

definition getUsers :: "World \<Rightarrow> User list" where
  "getUsers w = map withoutPassword (users w)"

text \<open>
  \<^verbatim>\<open>addMember\<close> (lines 85 to 98). The body of the POST response is never read, so
  its type is left open. The parameter type \<^verbatim>\<open>Omit<User, 'role'> & { role: 'member' }\<close>
  is a constraint on the callers; the code sends \<^verbatim>\<open>JSON.stringify(member)\<close>.
\<close>

definition addMember_try ::
  "'b fetch_result \<Rightarrow> User list fetch_result \<Rightarrow> User \<Rightarrow> World \<Rightarrow> (thrown + unit) \<times> World" where
  "addMember_try rp rg member w =
     (let w0 = perform (Fetch POST ''/members'' (Some (stringify member))) w in
      case rp of
        Rejected e \<Rightarrow> (Inl e, w0)
      | Responded status js \<Rightarrow>
          if \<not> ok status then (Inl (Error ''Failed to add member''), w0)
          else fetchUsers rg w0)"

definition addMember ::
  "'b fetch_result \<Rightarrow> User list fetch_result \<Rightarrow> User \<Rightarrow> World \<Rightarrow> (thrown + unit) \<times> World" where
  "addMember rp rg member w =
     (case addMember_try rp rg member w of
        (Inl e, w1) \<Rightarrow> (Inr (), w1\<lparr>error := Some ''Failed to add member''\<rparr>)
      | (Inr _, w1) \<Rightarrow> (Inr (), w1))"

text \<open>
  \<^verbatim>\<open>updateMember\<close> (lines 100 to 117). \<open>merge_updates\<close> is the object spread
  \<^verbatim>\<open>{ ...user, ...updates }\<close> as \<^verbatim>\<open>JSON.stringify\<close> writes it: a key of \<^verbatim>\<open>updates\<close>
  overrides the user's, and a key that ends up \<^verbatim>\<open>undefined\<close> is not written.
\<close>

definition merge_updates :: "User \<Rightarrow> MemberUpdates \<Rightarrow> UserJSON" where
  "merge_updates u upd =
     \<lparr>id_j = id_u u,
      name_j = (case name_upd upd of None \<Rightarrow> Some (name u) | Some v \<Rightarrow> v),
      email_j = (case email_upd upd of None \<Rightarrow> Some (email u) | Some v \<Rightarrow> v),
      password_j = (case password_upd upd of None \<Rightarrow> password u | Some v \<Rightarrow> v),
      role_j = role u\<rparr>"

definition updateMember_try ::
  "'b fetch_result \<Rightarrow> User list fetch_result \<Rightarrow> string \<Rightarrow> MemberUpdates \<Rightarrow> World
     \<Rightarrow> (thrown + unit) \<times> World" where
  "updateMember_try rp rg i upd w =
     (case List.find (\<lambda>u. id_u u = i) (users w) of
        None \<Rightarrow> (Inl (Error ''User not found''), w)
      | Some u \<Rightarrow>
          (let updatedMember = merge_updates u upd;
               w0 = perform (Fetch PUT (''/members/'' @ i) (Some updatedMember)) w
           in case rp of
                Rejected e \<Rightarrow> (Inl e, w0)
              | Responded status js \<Rightarrow>
                  if \<not> ok status then (Inl (Error ''Failed to update member''), w0)
                  else fetchUsers rg w0))"

definition updateMember ::
  "'b fetch_result \<Rightarrow> User list fetch_result \<Rightarrow> string \<Rightarrow> MemberUpdates \<Rightarrow> World
     \<Rightarrow> (thrown + unit) \<times> World" where
  "updateMember rp rg i upd w =
     (case updateMember_try rp rg i upd w of
        (Inl e, w1) \<Rightarrow> (Inr (), w1\<lparr>error := Some ''Failed to update member''\<rparr>)
      | (Inr _, w1) \<Rightarrow> (Inr (), w1))"

text \<open>
  \<^verbatim>\<open>removeMember\<close> (lines 119 to 145). The parsed body of the DELETE response is
  read only through \<^verbatim>\<open>data?.error\<close>, so the body is given as the value of that
  expression: \<open>JSUndefined\<close> when the body is \<^verbatim>\<open>null\<close> or has no such property. A
  body that does not parse counts as \<^verbatim>\<open>null\<close> (line 128). \<open>or_default\<close> is the
  message of \<^verbatim>\<open>new Error(data?.error || 'Failed to remove member')\<close>: the empty
  string is falsy, and a value that is not a string is tested and converted by the
  runtime.
\<close>

definition or_default :: "'v runtime \<Rightarrow> 'v js_value \<Rightarrow> string" where
  "or_default rt x =
     (case x of
        JSUndefined \<Rightarrow> ''Failed to remove member''
      | JSString m \<Rightarrow> if m = [] then ''Failed to remove member'' else m
      | JSOther v \<Rightarrow> if toBoolean rt v then toString rt v else ''Failed to remove member'')"

definition removeMember_try ::
  "'v runtime \<Rightarrow> 'v js_value fetch_result \<Rightarrow> string \<Rightarrow> World \<Rightarrow> (thrown + unit) \<times> World" where
  "removeMember_try rt r i w =
     (let w0 = perform (Fetch DELETE (''/members/'' @ i) None) w in
      case r of
        Rejected e \<Rightarrow> (Inl e, w0)
      | Responded status js \<Rightarrow>
          (let data_error = (case js of Inl _ \<Rightarrow> JSUndefined | Inr d \<Rightarrow> d) in
           if \<not> ok status then (Inl (Error (or_default rt data_error)), w0)
           else
             (Inr (), w0\<lparr>users := filter (\<lambda>u. id_u u \<noteq> i) (users w0), error := None\<rparr>)))"

definition removeMember ::
  "'v runtime \<Rightarrow> 'v js_value fetch_result \<Rightarrow> string \<Rightarrow> World \<Rightarrow> (thrown + unit) \<times> World" where
  "removeMember rt r i w =
     (case removeMember_try rt r i w of
        (Inl e, w1) \<Rightarrow>
          (Inl e, w1\<lparr>error := Some (case e of Error m \<Rightarrow> m
                                       | NonError \<Rightarrow> ''Failed to remove member'')\<rparr>)
      | (Inr _, w1) \<Rightarrow> (Inr (), w1))"

text \<open>The handler of the socket event \<^verbatim>\<open>dataUpdate\<close> (lines 30 to 34).\<close>

definition dataUpdate :: "string \<Rightarrow> User list \<Rightarrow> World \<Rightarrow> World" where
  "dataUpdate ty data w = (if ty = ''members'' then w\<lparr>users := data\<rparr> else w)"

subsection \<open>Runs of the store\<close>

text \<open>
  One event in the life of the store: a call of one of its operations together with
  what the network answers to it, or a socket event. A call is one step, from the
  request to the last write of its continuation: events that arrive while a request
  is in flight are ordered before or after the call. \<open>is_successful_login\<close> tells
  whether the event is a \<^verbatim>\<open>login\<close> whose promise resolves to \<^verbatim>\<open>true\<close>.
\<close>

datatype 'v event =
    SetUsers "User list"
  | FetchUsers "User list fetch_result"
  | Login "User list fetch_result" LoginCredentials
  | Logout
  | ClearError
  | GetUsers
  | AddMember "unit fetch_result" "User list fetch_result" User
  | UpdateMember "unit fetch_result" "User list fetch_result" string MemberUpdates
  | RemoveMember "'v js_value fetch_result" string
  | DataUpdate string "User list"

fun step :: "'v runtime \<Rightarrow> 'v event \<Rightarrow> World \<Rightarrow> World" where
  "step rt (SetUsers us) w = setUsers us w"
| "step rt (FetchUsers r) w = snd (fetchUsers r w)"
| "step rt (Login r c) w = snd (login rt r c w)"
| "step rt Logout w = logout w"
| "step rt ClearError w = clearError w"
| "step rt GetUsers w = w"
| "step rt (AddMember rp rg m) w = snd (addMember rp rg m w)"
| "step rt (UpdateMember rp rg i upd) w = snd (updateMember rp rg i upd w)"
| "step rt (RemoveMember r i) w = snd (removeMember rt r i w)"
| "step rt (DataUpdate ty data) w = dataUpdate ty data w"

fun run :: "'v runtime \<Rightarrow> 'v event list \<Rightarrow> World \<Rightarrow> World" where
  "run rt [] w = w"
| "run rt (e # es) w = run rt es (step rt e w)"

fun is_successful_login :: "'v runtime \<Rightarrow> 'v event \<Rightarrow> World \<Rightarrow> bool" where
  "is_successful_login rt (Login r c) w = (fst (login rt r c w) = Inr True)"
| "is_successful_login rt _ w = False"

definition anonymous :: "World \<Rightarrow> bool" where
  "anonymous w = (\<not> isAuthenticated w \<and> user w = None)"

definition authenticated :: "World \<Rightarrow> bool" where
  "authenticated w = (isAuthenticated w \<and> user w \<noteq> None)"

subsection \<open>Sample data\<close>

text \<open>
  Roster entries and rosters on which the operations are run, and a runtime to run
  them with. All sample strings are ASCII, where \<^verbatim>\<open>toLowerCase\<close> turns the letters
  \<^verbatim>\<open>A\<close> to \<^verbatim>\<open>Z\<close> into \<^verbatim>\<open>a\<close> to \<^verbatim>\<open>z\<close> and keeps every other character; the values
  that are not strings are the two booleans, with \<^verbatim>\<open>ToBoolean\<close> and \<^verbatim>\<open>ToString\<close> as
  JavaScript has them.
\<close>

definition ascii_lower_char :: "char \<Rightarrow> char" where
  "ascii_lower_char c =
     (let n = (of_char c :: nat) in if 65 \<le> n \<and> n \<le> 90 then char_of (n + 32) else c)"

definition ascii_lower :: "string \<Rightarrow> string" where
  "ascii_lower s = map ascii_lower_char s"

definition sample_runtime :: "bool runtime" where
  "sample_runtime =
     \<lparr>toLowerCase = ascii_lower,
      toBoolean = (\<lambda>b. b),
      toString = (\<lambda>b. if b then ''true'' else ''false'')\<rparr>"

definition alice :: User where
  "alice = \<lparr>id_u = ''1'', name = ''Alice'', email = ''a@x.com'', password = Some ''p1'',
     role = ''member''\<rparr>"

definition bob :: User where
  "bob = \<lparr>id_u = ''2'', name = ''Bob'', email = ''b@x.com'', password = Some ''p2'',
     role = ''member''\<rparr>"

definition carol :: User where
  "carol = \<lparr>id_u = ''3'', name = ''Carol'', email = ''c@x.com'', password = Some ''p3'',
     role = ''admin''\<rparr>"

definition roster1 :: World where
  "roster1 = initial\<lparr>users := [alice]\<rparr>"

definition roster2 :: World where
  "roster2 = initial\<lparr>users := [alice, bob, alice]\<rparr>"

section \<open>Properties\<close>

subsection \<open>Auxiliary facts\<close>

lemma ascii_lower_sample:
  "ascii_lower ''A@X.com'' = ''a@x.com''"
  "ascii_lower ''a@x.com'' = ''a@x.com''"
  by code_simp+

lemma sample_runtime_simps:
  "toLowerCase sample_runtime = ascii_lower"
  "toBoolean sample_runtime b = b"
  "toString sample_runtime b = (if b then ''true'' else ''false'')"
  by (simp_all add: sample_runtime_def)

lemma fetchUsers_never_throws: "fst (fetchUsers r w) = Inr ()"
  by (simp add: fetchUsers_def Let_def split: sum.splits)

lemma fetchUsers_session:
  "user (snd (fetchUsers r w)) = user w"
  "isAuthenticated (snd (fetchUsers r w)) = isAuthenticated w"
  by (simp_all add: fetchUsers_def fetchUsers_try_def perform_def Let_def
      split: sum.splits fetch_result.splits)

lemma find_first_index:
  "\<exists>u\<in>set xs. P u \<Longrightarrow>
   \<exists>k<length xs. List.find P xs = Some (xs ! k) \<and> P (xs ! k) \<and> (\<forall>j<k. \<not> P (xs ! j))"
proof -
  assume "\<exists>u\<in>set xs. P u"
  then obtain x where "List.find P xs = Some x"
    by (cases "List.find P xs") (auto simp: find_None_iff)
  then show ?thesis
    by (auto simp: find_Some_iff)
qed

lemma login_unfold:
  "login rt r c w =
     (case List.find (credentials_match rt c) (users (snd (fetchUsers r w))) of
        Some u \<Rightarrow> (Inr True, (snd (fetchUsers r w))
                     \<lparr>user := Some (withoutPassword u), isAuthenticated := True, error := None\<rparr>)
      | None \<Rightarrow> (Inr False, (snd (fetchUsers r w))\<lparr>error := Some ''Invalid email or password''\<rparr>))"
proof -
  obtain w1 where f: "fetchUsers r w = (Inr (), w1)"
    using fetchUsers_never_throws [of r w] by (cases "fetchUsers r w") auto
  show ?thesis
    by (simp add: login_def login_try_def f split: option.splits)
qed

subsection \<open>login\<close>

text \<open>
  Claim C1. Whenever the roster, as it is after the refresh by \<^verbatim>\<open>fetchUsers\<close> inside
  \<^verbatim>\<open>login\<close>, holds a user whose email equals the given one after \<^verbatim>\<open>toLowerCase\<close> on
  both sides and whose password is the given one, \<^verbatim>\<open>login\<close> resolves to \<^verbatim>\<open>true\<close>;
  the session user is the first such user of the roster (the one \<^verbatim>\<open>find\<close> returns,
  which is the given user when no other entry matches) with its password removed and
  every other field as it was; \<^verbatim>\<open>isAuthenticated\<close> is true and \<^verbatim>\<open>error\<close> is null.
  This holds whatever the case mapping of the runtime is.
\<close>

theorem C1_login_success:
  assumes "u \<in> set (users (snd (fetchUsers r w)))"
    and "toLowerCase rt (email u) = toLowerCase rt (email_c c)"
    and "password u = Some (password_c c)"
  shows "\<exists>u' k. k < length (users (snd (fetchUsers r w)))
            \<and> u' = users (snd (fetchUsers r w)) ! k
            \<and> toLowerCase rt (email u') = toLowerCase rt (email_c c)
            \<and> password u' = Some (password_c c)
            \<and> (\<forall>j<k. \<not> (toLowerCase rt (email (users (snd (fetchUsers r w)) ! j))
                             = toLowerCase rt (email_c c)
                           \<and> password (users (snd (fetchUsers r w)) ! j) = Some (password_c c)))
            \<and> ((\<forall>v\<in>set (users (snd (fetchUsers r w))).
                    toLowerCase rt (email v) = toLowerCase rt (email_c c)
                    \<and> password v = Some (password_c c) \<longrightarrow> v = u)
                 \<longrightarrow> u' = u)
            \<and> fst (login rt r c w) = Inr True
            \<and> user (snd (login rt r c w)) = Some (u'\<lparr>password := None\<rparr>)
            \<and> isAuthenticated (snd (login rt r c w))
            \<and> error (snd (login rt r c w)) = None
            \<and> users (snd (login rt r c w)) = users (snd (fetchUsers r w))"
proof -
  let ?us = "users (snd (fetchUsers r w))"
  from assms have "\<exists>v\<in>set ?us. credentials_match rt c v"
    by (auto simp: credentials_match_def)
  from find_first_index [OF this] obtain k where k: "k < length ?us"
    and f: "List.find (credentials_match rt c) ?us = Some (?us ! k)"
    and m: "credentials_match rt c (?us ! k)"
    and first: "\<forall>j<k. \<not> credentials_match rt c (?us ! j)"
    by blast
  have l: "login rt r c w = (Inr True, (snd (fetchUsers r w))
          \<lparr>user := Some (withoutPassword (?us ! k)), isAuthenticated := True, error := None\<rparr>)"
    by (simp add: login_unfold f)
  have mem: "?us ! k \<in> set ?us"
    using k by simp
  show ?thesis
  proof (intro exI [of _ "?us ! k"] exI [of _ k] conjI)
    show "(\<forall>v\<in>set ?us. toLowerCase rt (email v) = toLowerCase rt (email_c c)
                    \<and> password v = Some (password_c c) \<longrightarrow> v = u) \<longrightarrow> ?us ! k = u"
      using mem m by (auto simp: credentials_match_def)
  qed (use k m first l in \<open>simp_all add: credentials_match_def withoutPassword_def\<close>)
qed

text \<open>
  The scenario of the specification: the roster is the single user with email
  \<^verbatim>\<open>a@x.com\<close> and password \<^verbatim>\<open>p1\<close>, and the login is attempted with \<^verbatim>\<open>A@X.com\<close>.
\<close>

theorem C1_login_success_witness:
  "alice \<in> set (users (snd (fetchUsers (Responded 200 (Inr [alice])) initial)))
   \<and> toLowerCase sample_runtime (email alice) = toLowerCase sample_runtime ''A@X.com''
   \<and> password alice = Some ''p1''
   \<and> fst (login sample_runtime (Responded 200 (Inr [alice]))
            \<lparr>email_c = ''A@X.com'', password_c = ''p1''\<rparr> initial) = Inr True
   \<and> user (snd (login sample_runtime (Responded 200 (Inr [alice]))
                 \<lparr>email_c = ''A@X.com'', password_c = ''p1''\<rparr> initial))
       = Some \<lparr>id_u = ''1'', name = ''Alice'', email = ''a@x.com'', password = None,
               role = ''member''\<rparr>
   \<and> isAuthenticated (snd (login sample_runtime (Responded 200 (Inr [alice]))
                 \<lparr>email_c = ''A@X.com'', password_c = ''p1''\<rparr> initial))
   \<and> error (snd (login sample_runtime (Responded 200 (Inr [alice]))
                 \<lparr>email_c = ''A@X.com'', password_c = ''p1''\<rparr> initial)) = None"
proof -
  let ?r = "Responded 200 (Inr [alice]) :: User list fetch_result"
  let ?c = "\<lparr>email_c = ''A@X.com'', password_c = ''p1''\<rparr>"
  have roster: "users (snd (fetchUsers ?r initial)) = [alice]"
    by (simp add: fetchUsers_def fetchUsers_try_def ok_def perform_def initial_def)
  have h1: "alice \<in> set (users (snd (fetchUsers ?r initial)))"
    by (simp add: roster)
  have h2: "toLowerCase sample_runtime (email alice) = toLowerCase sample_runtime (email_c ?c)"
    by (simp add: sample_runtime_simps alice_def ascii_lower_sample)
  have h3: "password alice = Some (password_c ?c)"
    by (simp add: alice_def)
  from C1_login_success [OF h1 h2 h3] obtain u' k where
    k: "k < length (users (snd (fetchUsers ?r initial)))"
      "u' = users (snd (fetchUsers ?r initial)) ! k"
    and res: "fst (login sample_runtime ?r ?c initial) = Inr True"
      "user (snd (login sample_runtime ?r ?c initial)) = Some (u'\<lparr>password := None\<rparr>)"
      "isAuthenticated (snd (login sample_runtime ?r ?c initial))"
      "error (snd (login sample_runtime ?r ?c initial)) = None"
    by blast
  from k have "u' = alice" by (simp add: roster)
  with res h1 h2 h3 show ?thesis
    by (simp add: alice_def)
qed

text \<open>
  The same scenario with any runtime whose \<^verbatim>\<open>toLowerCase\<close> gives \<^verbatim>\<open>a@x.com\<close> for both
  spellings, as the one of JavaScript does.
\<close>

lemma login_scenario:
  assumes "toLowerCase rt ''A@X.com'' = ''a@x.com''" and "toLowerCase rt ''a@x.com'' = ''a@x.com''"
  shows "login rt (Responded 200 (Inr [alice])) \<lparr>email_c = ''A@X.com'', password_c = ''p1''\<rparr> initial
    = (Inr True,
       \<lparr>user = Some \<lparr>id_u = ''1'', name = ''Alice'', email = ''a@x.com'', password = None,
                     role = ''member''\<rparr>,
        isAuthenticated = True, error = None, users = [alice],
        effects = [Fetch GET ''/members'' None]\<rparr>)"
  using assms
  by (simp add: login_unfold fetchUsers_def fetchUsers_try_def ok_def perform_def initial_def
      credentials_match_def withoutPassword_def alice_def)

text \<open>
  Claim C2. Whenever no user of the refreshed roster has both an email equal to the
  given one after \<^verbatim>\<open>toLowerCase\<close> on both sides and the given password, \<^verbatim>\<open>login\<close>
  resolves to \<^verbatim>\<open>false\<close>, \<^verbatim>\<open>error\<close> is exactly \<^verbatim>\<open>Invalid email or password\<close>, and
  \<^verbatim>\<open>user\<close> and \<^verbatim>\<open>isAuthenticated\<close> are what they were before the call, so that an
  anonymous session stays anonymous. For all arguments whatsoever the promise of
  \<^verbatim>\<open>login\<close> resolves: it never rejects.
\<close>

theorem C2_login_failure:
  assumes "\<forall>u\<in>set (users (snd (fetchUsers r w))).
             \<not> (toLowerCase rt (email u) = toLowerCase rt (email_c c)
                \<and> password u = Some (password_c c))"
  shows "fst (login rt r c w) = Inr False
       \<and> error (snd (login rt r c w)) = Some ''Invalid email or password''
       \<and> user (snd (login rt r c w)) = user w
       \<and> isAuthenticated (snd (login rt r c w)) = isAuthenticated w
       \<and> users (snd (login rt r c w)) = users (snd (fetchUsers r w))
       \<and> (anonymous w \<longrightarrow> anonymous (snd (login rt r c w)))
       \<and> (\<exists>b. fst (login rt' r' c' w') = Inr b)"
proof -
  from assms have "List.find (credentials_match rt c) (users (snd (fetchUsers r w))) = None"
    by (simp add: find_None_iff credentials_match_def)
  then have "login rt r c w =
      (Inr False, (snd (fetchUsers r w))\<lparr>error := Some ''Invalid email or password''\<rparr>)"
    by (simp add: login_unfold)
  moreover have "\<exists>b. fst (login rt' r' c' w') = Inr b"
    by (auto simp: login_unfold split: option.splits)
  ultimately show ?thesis
    by (simp add: fetchUsers_session anonymous_def)
qed

theorem C2_login_failure_witness:
  "users (snd (fetchUsers (Responded 200 (Inr [alice])) initial)) = [alice]
   \<and> password alice \<noteq> Some ''wrong''
   \<and> anonymous initial
   \<and> fst (login sample_runtime (Responded 200 (Inr [alice]))
         \<lparr>email_c = ''a@x.com'', password_c = ''wrong''\<rparr> initial) = Inr False
   \<and> error (snd (login sample_runtime (Responded 200 (Inr [alice]))
         \<lparr>email_c = ''a@x.com'', password_c = ''wrong''\<rparr> initial))
       = Some ''Invalid email or password''
   \<and> anonymous (snd (login sample_runtime (Responded 200 (Inr [alice]))
         \<lparr>email_c = ''a@x.com'', password_c = ''wrong''\<rparr> initial))"
proof -
  let ?r = "Responded 200 (Inr [alice]) :: User list fetch_result"
  let ?c = "\<lparr>email_c = ''a@x.com'', password_c = ''wrong''\<rparr>"
  have roster: "users (snd (fetchUsers ?r initial)) = [alice]"
    by (simp add: fetchUsers_def fetchUsers_try_def ok_def perform_def initial_def)
  have n: "password alice \<noteq> Some ''wrong''"
    by (simp add: alice_def)
  have h: "\<forall>u\<in>set (users (snd (fetchUsers ?r initial))).
             \<not> (toLowerCase sample_runtime (email u) = toLowerCase sample_runtime (email_c ?c)
                \<and> password u = Some (password_c ?c))"
    unfolding roster using n by simp
  have a: "anonymous initial"
    by (simp add: anonymous_def initial_def)
  from C2_login_failure [OF h, of sample_runtime ?r ?c initial] a roster n show ?thesis
    by simp
qed

subsection \<open>getUsers\<close>

text \<open>
  Claim C3. In every state, \<^verbatim>\<open>getUsers()\<close> returns a list as long as the roster whose
  entry at each position is the roster's entry at that position without its password
  and with its other fields unchanged. The call is a pure function of the state: it
  leaves the state, the stored roster with its passwords included, and the log of
  requests as they are.
\<close>

theorem C3_getUsers:
  "length (getUsers w) = length (users w)
   \<and> (\<forall>i<length (users w).
         password (getUsers w ! i) = None
         \<and> id_u (getUsers w ! i) = id_u (users w ! i)
         \<and> name (getUsers w ! i) = name (users w ! i)
         \<and> email (getUsers w ! i) = email (users w ! i)
         \<and> role (getUsers w ! i) = role (users w ! i))
   \<and> step rt GetUsers w = w"
  by (simp add: getUsers_def withoutPassword_def)

theorem C3_getUsers_witness:
  "length (getUsers roster2) = 3
   \<and> (1::nat) < length (users roster2)
   \<and> password (getUsers roster2 ! 1) = None
   \<and> email (getUsers roster2 ! 1) = ''b@x.com''
   \<and> id_u (getUsers roster2 ! 1) = ''2''
   \<and> password (users roster2 ! 1) = Some ''p2''"
proof -
  have len: "length (users roster2) = 3" and h: "(1::nat) < length (users roster2)"
    and u: "users roster2 ! 1 = bob"
    by (simp_all add: roster2_def initial_def)
  from C3_getUsers [of roster2] h
  have "length (getUsers roster2) = length (users roster2)"
    "password (getUsers roster2 ! 1) = None"
    "email (getUsers roster2 ! 1) = email (users roster2 ! 1)"
    "id_u (getUsers roster2 ! 1) = id_u (users roster2 ! 1)"
    by blast+
  with len h u show ?thesis
    by (simp add: bob_def)
qed

subsection \<open>logout\<close>

text \<open>
  Claim C4. From every state, \<^verbatim>\<open>logout()\<close> calls \<^verbatim>\<open>localStorage.removeItem\<close> on the key
  \<^verbatim>\<open>auth-storage\<close>, leaves the store with \<^verbatim>\<open>user\<close> null, \<^verbatim>\<open>isAuthenticated\<close> false,
  \<^verbatim>\<open>error\<close> null and an empty roster, and assigns \<^verbatim>\<open>/\<close> to the location, which
  navigates to the application root.
\<close>

theorem C4_logout:
  "user (logout w) = None \<and> \<not> isAuthenticated (logout w) \<and> error (logout w) = None
   \<and> users (logout w) = []
   \<and> AuthState.truncate (logout w)
       = \<lparr>user = None, isAuthenticated = False, error = None, users = []\<rparr>
   \<and> effects (logout w) = effects w @ [RemoveItem ''auth-storage'', SetHref ''/'']"
  by (simp add: logout_def perform_def AuthState.truncate_def)

subsection \<open>removeMember\<close>

lemma removeMember_success:
  "ok status \<Longrightarrow>
   removeMember rt (Responded status js) i w =
     (Inr (), (perform (Fetch DELETE (''/members/'' @ i) None) w)
                \<lparr>users := filter (\<lambda>u. id_u u \<noteq> i) (users w), error := None\<rparr>)"
  by (simp add: removeMember_def removeMember_try_def perform_def Let_def)

lemma count_list_filter:
  "P u \<Longrightarrow> count_list (filter P xs) u = count_list xs u"
  by (induction xs) auto

text \<open>
  Claim C5. For every roster and every id, when the DELETE request of
  \<^verbatim>\<open>removeMember(id)\<close> is answered with a status from 200 to 299 (whatever the body
  is, parsed or not), the promise resolves and the new roster is the old one without
  the entries whose id is the given one: an entry is in the new roster exactly when
  it is in the old one under another id, the new roster is a subsequence of the old
  one (the order is kept), every entry under another id occurs as often as before,
  and \<^verbatim>\<open>error\<close> is null. The session fields are not touched.
\<close>

theorem C5_removeMember_success:
  assumes "ok status"
  shows "fst (removeMember rt (Responded status js) i w) = Inr ()
       \<and> users (snd (removeMember rt (Responded status js) i w))
           = filter (\<lambda>u. id_u u \<noteq> i) (users w)
       \<and> (\<forall>u. u \<in> set (users (snd (removeMember rt (Responded status js) i w)))
              \<longleftrightarrow> u \<in> set (users w) \<and> id_u u \<noteq> i)
       \<and> subseq (users (snd (removeMember rt (Responded status js) i w))) (users w)
       \<and> (\<forall>u. id_u u \<noteq> i \<longrightarrow>
              count_list (users (snd (removeMember rt (Responded status js) i w))) u
                = count_list (users w) u)
       \<and> error (snd (removeMember rt (Responded status js) i w)) = None
       \<and> user (snd (removeMember rt (Responded status js) i w)) = user w
       \<and> isAuthenticated (snd (removeMember rt (Responded status js) i w)) = isAuthenticated w"
proof -
  have "users (snd (removeMember rt (Responded status js) i w))
          = filter (\<lambda>u. id_u u \<noteq> i) (users w)"
    using assms by (simp add: removeMember_success)
  moreover have "\<forall>u. id_u u \<noteq> i \<longrightarrow>
      count_list (filter (\<lambda>u. id_u u \<noteq> i) (users w)) u = count_list (users w) u"
    by (simp add: count_list_filter)
  ultimately show ?thesis
    using assms by (simp add: removeMember_success perform_def)
qed

theorem C5_removeMember_success_witness:
  "ok 204
   \<and> users roster2 = [alice, bob, alice]
   \<and> fst (removeMember sample_runtime (Responded 204 (Inl (Error ''Unexpected end of JSON input''))) ''1'' roster2)
       = Inr ()
   \<and> users (snd (removeMember sample_runtime (Responded 204 (Inl (Error ''Unexpected end of JSON input'')))
        ''1'' roster2)) = [bob]
   \<and> error (snd (removeMember sample_runtime (Responded 204 (Inl (Error ''Unexpected end of JSON input'')))
        ''1'' roster2)) = None"
proof -
  have h: "ok 204" by (simp add: ok_def)
  have u: "users roster2 = [alice, bob, alice]" by (simp add: roster2_def)
  have f: "filter (\<lambda>u. id_u u \<noteq> ''1'') [alice, bob, alice] = [bob]"
    by (simp add: alice_def bob_def)
  from C5_removeMember_success
    [OF h, of sample_runtime "Inl (Error ''Unexpected end of JSON input'')" "''1''" roster2]
  show ?thesis
    using h u f by simp
qed

text \<open>
  Claim C6, as the code has it. When the DELETE request of \<^verbatim>\<open>removeMember(id)\<close> fails,
  the roster and the session fields are left unchanged, the promise rejects with the
  error that was thrown, and \<^verbatim>\<open>error\<close> is the message of that error:
  \<^item> on a status outside 200 to 299, the \<^verbatim>\<open>error\<close> property of the response body when
    it is a non-empty string, the runtime's string for that property when it is a
    truthy value of another kind, and \<^verbatim>\<open>Failed to remove member\<close> when the body does
    not parse, has no such property, or has a falsy value there (the empty string
    included);
  \<^item> when \<^verbatim>\<open>fetch\<close> itself rejects (a network error), the message of the rejection
    when it is an \<^verbatim>\<open>Error\<close> instance, and \<^verbatim>\<open>Failed to remove member\<close> otherwise.
  A rejection of \<^verbatim>\<open>removeMember\<close> comes only from such a failure, and the promises of
  \<^verbatim>\<open>fetchUsers\<close>, \<^verbatim>\<open>login\<close>, \<^verbatim>\<open>addMember\<close> and \<^verbatim>\<open>updateMember\<close> never reject.
\<close>

theorem C6_removeMember_failure:
  "(\<not> ok status \<and> m \<noteq> [] \<longrightarrow>
      removeMember rt (Responded status (Inr (JSString m))) i w =
        (Inl (Error m), (perform (Fetch DELETE (''/members/'' @ i) None) w)\<lparr>error := Some m\<rparr>))
   \<and> (\<not> ok status \<and> toBoolean rt v \<longrightarrow>
      removeMember rt (Responded status (Inr (JSOther v))) i w =
        (Inl (Error (toString rt v)),
         (perform (Fetch DELETE (''/members/'' @ i) None) w)\<lparr>error := Some (toString rt v)\<rparr>))
   \<and> (\<not> ok status
        \<and> (js = Inl e \<or> js = Inr JSUndefined \<or> js = Inr (JSString [])
             \<or> js = Inr (JSOther v) \<and> \<not> toBoolean rt v) \<longrightarrow>
      removeMember rt (Responded status js) i w =
        (Inl (Error ''Failed to remove member''),
         (perform (Fetch DELETE (''/members/'' @ i) None) w)
           \<lparr>error := Some ''Failed to remove member''\<rparr>))
   \<and> removeMember rt (Rejected (Error m)) i w =
        (Inl (Error m), (perform (Fetch DELETE (''/members/'' @ i) None) w)\<lparr>error := Some m\<rparr>)
   \<and> removeMember rt (Rejected NonError) i w =
        (Inl NonError, (perform (Fetch DELETE (''/members/'' @ i) None) w)
           \<lparr>error := Some ''Failed to remove member''\<rparr>)
   \<and> (\<forall>x. fst (removeMember rt r i w) = Inl x \<longrightarrow>
         users (snd (removeMember rt r i w)) = users w
         \<and> user (snd (removeMember rt r i w)) = user w
         \<and> isAuthenticated (snd (removeMember rt r i w)) = isAuthenticated w
         \<and> (r = Rejected x \<or> (\<exists>status js. r = Responded status js \<and> \<not> ok status)))
   \<and> fst (fetchUsers rg w) = Inr ()
   \<and> (\<exists>b. fst (login rt rg c w) = Inr b)
   \<and> fst (addMember rp rg member w) = Inr ()
   \<and> fst (updateMember rp rg i upd w) = Inr ()"
proof -
  have a: "fst (addMember rp rg member w) = Inr ()"
    by (simp add: addMember_def split: prod.splits sum.splits)
  have u: "fst (updateMember rp rg i upd w) = Inr ()"
    by (simp add: updateMember_def split: prod.splits sum.splits)
  have l: "\<exists>b. fst (login rt rg c w) = Inr b"
    by (auto simp: login_unfold split: option.splits)
  have f: "\<forall>x. fst (removeMember rt r i w) = Inl x \<longrightarrow>
         users (snd (removeMember rt r i w)) = users w
         \<and> user (snd (removeMember rt r i w)) = user w
         \<and> isAuthenticated (snd (removeMember rt r i w)) = isAuthenticated w
         \<and> (r = Rejected x \<or> (\<exists>status js. r = Responded status js \<and> \<not> ok status))"
    by (auto simp: removeMember_def removeMember_try_def perform_def Let_def
        split: fetch_result.splits if_splits)
  show ?thesis
    using a u l f
    by (auto simp: removeMember_def removeMember_try_def or_default_def perform_def Let_def
        fetchUsers_never_throws)
qed

theorem C6_removeMember_failure_witness:
  "\<not> ok 404 \<and> ''No such member'' \<noteq> [] \<and> toBoolean sample_runtime True
   \<and> removeMember sample_runtime (Responded 404 (Inr (JSString ''No such member''))) ''7'' roster2 =
        (Inl (Error ''No such member''),
         (perform (Fetch DELETE ''/members/7'' None) roster2)\<lparr>error := Some ''No such member''\<rparr>)
   \<and> removeMember sample_runtime (Responded 404 (Inr (JSOther True))) ''7'' roster2 =
        (Inl (Error ''true''),
         (perform (Fetch DELETE ''/members/7'' None) roster2)\<lparr>error := Some ''true''\<rparr>)
   \<and> removeMember sample_runtime (Responded 404 (Inr JSUndefined)) ''7'' roster2 =
        (Inl (Error ''Failed to remove member''),
         (perform (Fetch DELETE ''/members/7'' None) roster2)
           \<lparr>error := Some ''Failed to remove member''\<rparr>)
   \<and> users (snd (removeMember sample_runtime
                    (Responded 404 (Inr (JSString ''No such member''))) ''7'' roster2))
        = [alice, bob, alice]"
proof -
  have h: "\<not> ok 404" by (simp add: ok_def)
  have n: "''No such member'' \<noteq> []" by simp
  have t: "toBoolean sample_runtime True" by (simp add: sample_runtime_simps)
  have u: "users roster2 = [alice, bob, alice]" by (simp add: roster2_def)
  note t1 = C6_removeMember_failure
    [of 404 "''No such member''" sample_runtime "''7''" roster2 True "Inr JSUndefined" _
        "Responded 404 (Inr (JSString ''No such member''))"]
  from t1 h n
  have r1: "removeMember sample_runtime (Responded 404 (Inr (JSString ''No such member'')))
               ''7'' roster2 =
        (Inl (Error ''No such member''),
         (perform (Fetch DELETE (''/members/'' @ ''7'') None) roster2)
           \<lparr>error := Some ''No such member''\<rparr>)"
    by blast
  from t1 h t
  have r2: "removeMember sample_runtime (Responded 404 (Inr (JSOther True))) ''7'' roster2 =
        (Inl (Error (toString sample_runtime True)),
         (perform (Fetch DELETE (''/members/'' @ ''7'') None) roster2)
           \<lparr>error := Some (toString sample_runtime True)\<rparr>)"
    by blast
  from t1 h
  have r3: "removeMember sample_runtime (Responded 404 (Inr JSUndefined)) ''7'' roster2 =
        (Inl (Error ''Failed to remove member''),
         (perform (Fetch DELETE (''/members/'' @ ''7'') None) roster2)
           \<lparr>error := Some ''Failed to remove member''\<rparr>)"
    by blast
  from t1 r1
  have r4: "users (snd (removeMember sample_runtime
                          (Responded 404 (Inr (JSString ''No such member''))) ''7'' roster2))
       = users roster2"
    by (metis fst_conv)
  from h n t r1 r2 r3 r4 u show ?thesis
    by (simp add: sample_runtime_simps)
qed

text \<open>
  Claim C6 as the specification words it has \<^verbatim>\<open>error\<close> set to the default message
  whenever the server provides none. A network error provides none, yet \<^verbatim>\<open>error\<close>
  becomes the message of the rejection, here the \<^verbatim>\<open>Failed to fetch\<close> of a browser whose
  request did not get through.
\<close>

theorem C6_removeMember_failure_counterexample:
  "error (snd (removeMember sample_runtime (Rejected (Error ''Failed to fetch'')) ''1'' roster1))
     = Some ''Failed to fetch''
   \<and> error (snd (removeMember sample_runtime (Rejected (Error ''Failed to fetch'')) ''1'' roster1))
     \<noteq> Some ''Failed to remove member''"
  by (simp add: removeMember_def removeMember_try_def perform_def Let_def)

subsection \<open>fetchUsers\<close>

text \<open>
  Claim C7. The promise of \<^verbatim>\<open>fetchUsers\<close> always resolves. When the request fails
  (\<^verbatim>\<open>fetch\<close> rejects, the status is outside 200 to 299, or the body does not parse),
  the roster is what it was and \<^verbatim>\<open>error\<close> is \<^verbatim>\<open>Failed to fetch users\<close>; nothing else
  changes but the log of requests. When the status is from 200 to 299 and the body
  parses, the roster becomes the body, whatever it was before.
\<close>

theorem C7_fetchUsers:
  "fst (fetchUsers r w) = Inr ()
   \<and> (r = Rejected e \<or> (\<exists>status js. r = Responded status js \<and> \<not> ok status)
        \<or> (\<exists>status. r = Responded status (Inl e)) \<longrightarrow>
       users (snd (fetchUsers r w)) = users w
       \<and> error (snd (fetchUsers r w)) = Some ''Failed to fetch users''
       \<and> snd (fetchUsers r w)
           = (perform (Fetch GET ''/members'' None) w)\<lparr>error := Some ''Failed to fetch users''\<rparr>)
   \<and> (ok status \<longrightarrow>
       users (snd (fetchUsers (Responded status (Inr us)) w)) = us
       \<and> snd (fetchUsers (Responded status (Inr us)) w)
           = (perform (Fetch GET ''/members'' None) w)\<lparr>users := us\<rparr>)"
proof -
  have "r = Rejected e \<or> (\<exists>status js. r = Responded status js \<and> \<not> ok status)
        \<or> (\<exists>status. r = Responded status (Inl e)) \<longrightarrow>
       snd (fetchUsers r w)
           = (perform (Fetch GET ''/members'' None) w)\<lparr>error := Some ''Failed to fetch users''\<rparr>"
    by (auto simp: fetchUsers_def fetchUsers_try_def Let_def)
  moreover have "ok status \<longrightarrow> snd (fetchUsers (Responded status (Inr us)) w)
           = (perform (Fetch GET ''/members'' None) w)\<lparr>users := us\<rparr>"
    by (simp add: fetchUsers_def fetchUsers_try_def Let_def)
  ultimately show ?thesis
    by (simp add: fetchUsers_never_throws perform_def)
qed

theorem C7_fetchUsers_witness:
  "\<not> ok 500 \<and> ok 200
   \<and> fst (fetchUsers (Responded 500 (Inr [bob])) roster1) = Inr ()
   \<and> users (snd (fetchUsers (Responded 500 (Inr [bob])) roster1)) = [alice]
   \<and> error (snd (fetchUsers (Responded 500 (Inr [bob])) roster1)) = Some ''Failed to fetch users''
   \<and> users (snd (fetchUsers (Rejected (Error ''Failed to fetch'')) roster1)) = [alice]
   \<and> error (snd (fetchUsers (Rejected (Error ''Failed to fetch'')) roster1))
       = Some ''Failed to fetch users''
   \<and> users (snd (fetchUsers (Responded 200 (Inr [bob])) roster1)) = [bob]"
proof -
  have h: "\<not> ok 500" "ok 200" by (simp_all add: ok_def)
  have u: "users roster1 = [alice]" by (simp add: roster1_def)
  from C7_fetchUsers [of "Responded 500 (Inr [bob])" roster1 NonError 200 "[bob]"] h
  have a: "fst (fetchUsers (Responded 500 (Inr [bob])) roster1) = Inr ()"
    "users (snd (fetchUsers (Responded 500 (Inr [bob])) roster1)) = users roster1"
    "error (snd (fetchUsers (Responded 500 (Inr [bob])) roster1)) = Some ''Failed to fetch users''"
    "users (snd (fetchUsers (Responded 200 (Inr [bob])) roster1)) = [bob]"
    by blast+
  from C7_fetchUsers [of "Rejected (Error ''Failed to fetch'')" roster1 "Error ''Failed to fetch''"]
  have b: "users (snd (fetchUsers (Rejected (Error ''Failed to fetch'')) roster1)) = users roster1"
    "error (snd (fetchUsers (Rejected (Error ''Failed to fetch'')) roster1))
       = Some ''Failed to fetch users''"
    by blast+
  from h a b u show ?thesis by simp
qed

subsection \<open>The push-update handler\<close>

text \<open>
  Claim C8. A \<^verbatim>\<open>dataUpdate\<close> event of type \<^verbatim>\<open>members\<close> makes its payload the
  roster, whatever the roster was, and an event of any type leaves \<^verbatim>\<open>user\<close>,
  \<^verbatim>\<open>isAuthenticated\<close> and \<^verbatim>\<open>error\<close> as they were and sends nothing; an event of
  another type leaves the whole state unchanged.
\<close>

theorem C8_dataUpdate:
  "users (dataUpdate ''members'' data w) = data
   \<and> dataUpdate ''members'' data w = w\<lparr>users := data\<rparr>
   \<and> user (dataUpdate ty data w) = user w
   \<and> isAuthenticated (dataUpdate ty data w) = isAuthenticated w
   \<and> error (dataUpdate ty data w) = error w
   \<and> effects (dataUpdate ty data w) = effects w
   \<and> (ty \<noteq> ''members'' \<longrightarrow> dataUpdate ty data w = w)"
  by (simp add: dataUpdate_def)

theorem C8_dataUpdate_witness:
  "''gigs'' \<noteq> ''members''
   \<and> dataUpdate ''gigs'' [bob] roster1 = roster1
   \<and> users (dataUpdate ''members'' [bob] roster1) = [bob]
   \<and> users roster1 = [alice]"
proof -
  have h: "''gigs'' \<noteq> ''members''" by simp
  from C8_dataUpdate [of "[bob]" roster1 "''gigs''"] h
  have "dataUpdate ''gigs'' [bob] roster1 = roster1"
    "users (dataUpdate ''members'' [bob] roster1) = [bob]"
    by blast+
  with h show ?thesis by (simp add: roster1_def)
qed

subsection \<open>addMember\<close>

lemma fetchUsers_effects:
  "effects (snd (fetchUsers r w)) = effects w @ [Fetch GET ''/members'' None]"
  by (simp add: fetchUsers_def fetchUsers_try_def perform_def Let_def
      split: sum.splits fetch_result.splits)

lemma addMember_unfold:
  "snd (addMember rp rg member w) =
     (let w0 = perform (Fetch POST ''/members'' (Some (stringify member))) w in
      case rp of
        Rejected e \<Rightarrow> w0\<lparr>error := Some ''Failed to add member''\<rparr>
      | Responded status js \<Rightarrow>
          if ok status then snd (fetchUsers rg w0)
          else w0\<lparr>error := Some ''Failed to add member''\<rparr>)"
proof -
  let ?w0 = "perform (Fetch POST ''/members'' (Some (stringify member))) w"
  obtain w1 where f: "fetchUsers rg ?w0 = (Inr (), w1)"
    using fetchUsers_never_throws [of rg ?w0] by (cases "fetchUsers rg ?w0") auto
  show ?thesis
    by (simp add: addMember_def addMember_try_def Let_def f split: fetch_result.splits)
qed

text \<open>
  Claim C9, as the code has it. For every member argument, the first request sent by
  \<^verbatim>\<open>addMember(member)\<close> is a POST to the members collection whose JSON body is that
  member as it was given, key by key: the role in the body is the role of the
  argument, which the code does not set (the parameter type asks the callers for the
  role \<^verbatim>\<open>member\<close>). On a status from 200 to 299 the operation goes on exactly as
  \<^verbatim>\<open>fetchUsers\<close> does from there; when \<^verbatim>\<open>fetch\<close> rejects or the status is outside
  that range, \<^verbatim>\<open>error\<close> becomes \<^verbatim>\<open>Failed to add member\<close> and nothing else changes.
  The promise always resolves.
\<close>

theorem C9_addMember:
  "fst (addMember rp rg member w) = Inr ()
   \<and> (\<exists>body rest. effects (snd (addMember rp rg member w))
                      = effects w @ Fetch POST ''/members'' (Some body) # rest
                    \<and> id_j body = id_u member \<and> name_j body = Some (name member)
                    \<and> email_j body = Some (email member)
                    \<and> password_j body = password member \<and> role_j body = role member)
   \<and> (ok status \<longrightarrow>
        snd (addMember (Responded status js) rg member w)
          = snd (fetchUsers rg (perform (Fetch POST ''/members'' (Some (stringify member))) w)))
   \<and> (rp = Rejected e \<or> (\<exists>status js. rp = Responded status js \<and> \<not> ok status) \<longrightarrow>
        snd (addMember rp rg member w)
          = (perform (Fetch POST ''/members'' (Some (stringify member))) w)
              \<lparr>error := Some ''Failed to add member''\<rparr>)"
proof -
  have 1: "fst (addMember rp rg member w) = Inr ()"
    by (simp add: addMember_def split: prod.splits sum.splits)
  have "\<exists>rest. effects (snd (addMember rp rg member w))
                     = effects w @ Fetch POST ''/members'' (Some (stringify member)) # rest"
    by (simp add: addMember_unfold Let_def fetchUsers_effects perform_def
        split: fetch_result.splits)
  then have 2: "\<exists>body rest. effects (snd (addMember rp rg member w))
                      = effects w @ Fetch POST ''/members'' (Some body) # rest
                    \<and> id_j body = id_u member \<and> name_j body = Some (name member)
                    \<and> email_j body = Some (email member)
                    \<and> password_j body = password member \<and> role_j body = role member"
    by (auto simp: stringify_def)
  have 3: "ok status \<longrightarrow>
            snd (addMember (Responded status js) rg member w)
              = snd (fetchUsers rg (perform (Fetch POST ''/members'' (Some (stringify member))) w))"
    by (simp add: addMember_unfold Let_def)
  have 4: "rp = Rejected e \<or> (\<exists>status js. rp = Responded status js \<and> \<not> ok status) \<longrightarrow>
            snd (addMember rp rg member w)
              = (perform (Fetch POST ''/members'' (Some (stringify member))) w)
                  \<lparr>error := Some ''Failed to add member''\<rparr>"
    by (auto simp: addMember_unfold Let_def)
  from 1 2 3 4 show ?thesis
    by blast
qed

theorem C9_addMember_witness:
  "ok 201 \<and> \<not> ok 409
   \<and> effects (snd (addMember (Responded 201 (Inr ())) (Responded 200 (Inr [alice, bob])) bob roster1))
       = [Fetch POST ''/members''
            (Some \<lparr>id_j = ''2'', name_j = Some ''Bob'', email_j = Some ''b@x.com'',
                   password_j = Some ''p2'', role_j = ''member''\<rparr>),
          Fetch GET ''/members'' None]
   \<and> users (snd (addMember (Responded 201 (Inr ())) (Responded 200 (Inr [alice, bob])) bob roster1))
       = [alice, bob]
   \<and> fst (addMember (Responded 409 (Inr ())) (Responded 200 (Inr [alice, bob])) bob roster1)
       = Inr ()
   \<and> error (snd (addMember (Responded 409 (Inr ())) (Responded 200 (Inr [alice, bob])) bob roster1))
       = Some ''Failed to add member''
   \<and> users (snd (addMember (Responded 409 (Inr ())) (Responded 200 (Inr [alice, bob])) bob roster1))
       = [alice]"
proof -
  let ?rg = "Responded 200 (Inr [alice, bob]) :: User list fetch_result"
  have k: "ok 201" "\<not> ok 409" "ok 200" by (simp_all add: ok_def)
  have s: "stringify bob = \<lparr>id_j = ''2'', name_j = Some ''Bob'', email_j = Some ''b@x.com'',
                   password_j = Some ''p2'', role_j = ''member''\<rparr>"
    by (simp add: stringify_def bob_def)
  have f: "snd (fetchUsers ?rg (perform (Fetch POST ''/members'' (Some (stringify bob))) roster1))
             = (perform (Fetch GET ''/members'' None)
                  (perform (Fetch POST ''/members'' (Some (stringify bob))) roster1))
                 \<lparr>users := [alice, bob]\<rparr>"
    by (simp add: fetchUsers_def fetchUsers_try_def k Let_def)
  from C9_addMember [of "Responded 201 (Inr ())" ?rg bob roster1 201 "Inr ()" NonError] k
  have a: "snd (addMember (Responded 201 (Inr ())) ?rg bob roster1)
             = snd (fetchUsers ?rg (perform (Fetch POST ''/members'' (Some (stringify bob))) roster1))"
    by blast
  from C9_addMember [of "Responded 409 (Inr ())" ?rg bob roster1 201 "Inr ()" NonError] k
  have b: "fst (addMember (Responded 409 (Inr ())) ?rg bob roster1) = Inr ()"
    "snd (addMember (Responded 409 (Inr ())) ?rg bob roster1)
       = (perform (Fetch POST ''/members'' (Some (stringify bob))) roster1)
           \<lparr>error := Some ''Failed to add member''\<rparr>"
    by blast+
  from k a b f show ?thesis
    by (simp add: perform_def roster1_def initial_def s)
qed

text \<open>
  Claim C9 as the specification words it has the role of the body forced to
  \<^verbatim>\<open>member\<close>. Nothing in \<^verbatim>\<open>addMember\<close> writes the role: handed a member whose role is
  \<^verbatim>\<open>admin\<close>, it posts that member with the role \<^verbatim>\<open>admin\<close>.
\<close>

theorem C9_addMember_counterexample:
  "effects (snd (addMember (Responded 201 (Inr ())) (Responded 200 (Inr [alice, carol])) carol
                   roster1))
     = [Fetch POST ''/members''
          (Some \<lparr>id_j = ''3'', name_j = Some ''Carol'', email_j = Some ''c@x.com'',
                 password_j = Some ''p3'', role_j = ''admin''\<rparr>),
        Fetch GET ''/members'' None]
   \<and> role_j \<lparr>id_j = ''3'', name_j = Some ''Carol'', email_j = Some ''c@x.com'',
              password_j = Some ''p3'', role_j = ''admin''\<rparr> \<noteq> ''member''"
  by (simp add: addMember_def addMember_try_def fetchUsers_def fetchUsers_try_def ok_def
      perform_def Let_def stringify_def carol_def roster1_def initial_def)

subsection \<open>The session state machine\<close>

lemma updateMember_session:
  "user (snd (updateMember rp rg i upd w)) = user w"
  "isAuthenticated (snd (updateMember rp rg i upd w)) = isAuthenticated w"
proof -
  have "user (snd (updateMember rp rg i upd w)) = user w
      \<and> isAuthenticated (snd (updateMember rp rg i upd w)) = isAuthenticated w"
  proof (cases "List.find (\<lambda>u. id_u u = i) (users w)")
    case None
    then show ?thesis
      by (simp add: updateMember_def updateMember_try_def)
  next
    case (Some u)
    let ?w0 = "perform (Fetch PUT (''/members/'' @ i) (Some (merge_updates u upd))) w"
    obtain w1 where f: "fetchUsers rg ?w0 = (Inr (), w1)"
      using fetchUsers_never_throws [of rg ?w0] by (cases "fetchUsers rg ?w0") auto
    from fetchUsers_session [of rg ?w0] f
    have "user w1 = user w" "isAuthenticated w1 = isAuthenticated w"
      by (simp_all add: perform_def)
    with Some f show ?thesis
      by (simp add: updateMember_def updateMember_try_def Let_def perform_def
          split: fetch_result.splits)
  qed
  then show "user (snd (updateMember rp rg i upd w)) = user w"
    "isAuthenticated (snd (updateMember rp rg i upd w)) = isAuthenticated w"
    by simp_all
qed

lemma addMember_session:
  "user (snd (addMember rp rg member w)) = user w"
  "isAuthenticated (snd (addMember rp rg member w)) = isAuthenticated w"
  by (simp_all add: addMember_unfold Let_def fetchUsers_session perform_def
      split: fetch_result.splits)

lemma removeMember_session:
  "user (snd (removeMember rt r i w)) = user w"
  "isAuthenticated (snd (removeMember rt r i w)) = isAuthenticated w"
  by (simp_all add: removeMember_def removeMember_try_def perform_def Let_def
      split: fetch_result.splits)

lemma login_session:
  "fst (login rt r c w) = Inr True \<Longrightarrow> authenticated (snd (login rt r c w))"
  "fst (login rt r c w) \<noteq> Inr True \<Longrightarrow>
     user (snd (login rt r c w)) = user w \<and> isAuthenticated (snd (login rt r c w)) = isAuthenticated w"
  by (simp_all add: login_unfold authenticated_def fetchUsers_session split: option.splits)

lemma step_session:
  "\<not> is_successful_login rt e w \<Longrightarrow> e \<noteq> Logout \<Longrightarrow>
     user (step rt e w) = user w \<and> isAuthenticated (step rt e w) = isAuthenticated w"
  by (cases e)
    (simp_all add: setUsers_def clearError_def dataUpdate_def fetchUsers_session
      addMember_session updateMember_session removeMember_session login_session)

lemma step_login: "is_successful_login rt e w \<Longrightarrow> authenticated (step rt e w)"
  by (cases e) (simp_all add: login_session)

lemma logout_anonymous: "anonymous (logout w)"
  by (simp add: logout_def perform_def anonymous_def)

lemma step_anonymous_or_authenticated:
  "anonymous w \<or> authenticated w \<Longrightarrow> anonymous (step rt e w) \<or> authenticated (step rt e w)"
proof (cases "is_successful_login rt e w \<or> e = Logout")
  case True
  then show ?thesis
    using step_login [of rt e w] logout_anonymous [of w] by auto
next
  case False
  assume "anonymous w \<or> authenticated w"
  with False step_session [of rt e w] show ?thesis
    by (simp add: anonymous_def authenticated_def)
qed

lemma run_anonymous_or_authenticated:
  "anonymous w \<or> authenticated w \<Longrightarrow> anonymous (run rt es w) \<or> authenticated (run rt es w)"
  by (induction es arbitrary: w) (simp_all add: step_anonymous_or_authenticated)

text \<open>
  Claim C10. Every state reached from the initial one by a sequence of operations
  and push-update events is anonymous (\<^verbatim>\<open>isAuthenticated\<close> false, \<^verbatim>\<open>user\<close> null) or
  authenticated. From any state whatsoever, reachable ones included: a step from an
  anonymous to an authenticated state is a \<^verbatim>\<open>login\<close> that resolves to \<^verbatim>\<open>true\<close>, and
  every such \<^verbatim>\<open>login\<close> ends authenticated; a step from an authenticated to an
  anonymous state is a \<^verbatim>\<open>logout\<close>, and every \<^verbatim>\<open>logout\<close> ends anonymous; every other
  step (a \<^verbatim>\<open>login\<close> that resolves to \<^verbatim>\<open>false\<close>, \<^verbatim>\<open>fetchUsers\<close>, \<^verbatim>\<open>addMember\<close>,
  \<^verbatim>\<open>updateMember\<close>, \<^verbatim>\<open>removeMember\<close>, \<^verbatim>\<open>setUsers\<close>, \<^verbatim>\<open>clearError\<close>, \<^verbatim>\<open>getUsers\<close>, a
  push-update event) leaves \<^verbatim>\<open>user\<close> and \<^verbatim>\<open>isAuthenticated\<close> as they were.
\<close>

theorem C10_session_transitions:
  "(anonymous (run rt es initial) \<or> authenticated (run rt es initial))
   \<and> (anonymous w \<and> authenticated (step rt e w) \<longrightarrow> is_successful_login rt e w)
   \<and> (authenticated w \<and> anonymous (step rt e w) \<longrightarrow> e = Logout)
   \<and> (is_successful_login rt e w \<longrightarrow> authenticated (step rt e w))
   \<and> (e = Logout \<longrightarrow> anonymous (step rt e w))
   \<and> (\<not> is_successful_login rt e w \<and> e \<noteq> Logout \<longrightarrow>
        user (step rt e w) = user w \<and> isAuthenticated (step rt e w) = isAuthenticated w)
   \<and> ((\<forall>r c. e \<noteq> Login r c) \<and> e \<noteq> Logout \<longrightarrow>
        user (step rt e w) = user w \<and> isAuthenticated (step rt e w) = isAuthenticated w)"
proof -
  have init: "anonymous initial"
    by (simp add: anonymous_def initial_def)
  have 1: "anonymous (run rt es initial) \<or> authenticated (run rt es initial)"
    using init by (simp add: run_anonymous_or_authenticated)
  have 2: "anonymous w \<and> authenticated (step rt e w) \<longrightarrow> is_successful_login rt e w"
    using step_session [of rt e w] logout_anonymous [of w]
    by (cases "e = Logout") (auto simp: anonymous_def authenticated_def)
  have 3: "authenticated w \<and> anonymous (step rt e w) \<longrightarrow> e = Logout"
    using step_session [of rt e w] step_login [of rt e w]
    by (auto simp: anonymous_def authenticated_def)
  have 4: "e = Logout \<longrightarrow> anonymous (step rt e w)"
    by (simp add: logout_anonymous)
  have 5: "(\<forall>r c. e \<noteq> Login r c) \<longrightarrow> \<not> is_successful_login rt e w"
    by (cases e) simp_all
  from 1 2 3 4 5 step_login [of rt e w] step_session [of rt e w] show ?thesis
    by blast
qed

theorem C10_session_transitions_witness:
  "anonymous initial
   \<and> is_successful_login sample_runtime
        (Login (Responded 200 (Inr [alice])) \<lparr>email_c = ''A@X.com'', password_c = ''p1''\<rparr>) initial
   \<and> authenticated
        (step sample_runtime (Login (Responded 200 (Inr [alice])) \<lparr>email_c = ''A@X.com'', password_c = ''p1''\<rparr>)
           initial)
   \<and> (DataUpdate ''members'' [] :: bool event) \<noteq> Logout
   \<and> authenticated
        (run sample_runtime [Login (Responded 200 (Inr [alice])) \<lparr>email_c = ''A@X.com'', password_c = ''p1''\<rparr>,
              DataUpdate ''members'' []] initial)
   \<and> anonymous
        (step sample_runtime Logout
          (run sample_runtime [Login (Responded 200 (Inr [alice])) \<lparr>email_c = ''A@X.com'', password_c = ''p1''\<rparr>,
                DataUpdate ''members'' []] initial))"
proof -
  let ?l = "Login (Responded 200 (Inr [alice])) \<lparr>email_c = ''A@X.com'', password_c = ''p1''\<rparr>
              :: bool event"
  let ?d = "DataUpdate ''members'' [] :: bool event"
  have a: "anonymous initial"
    by (simp add: anonymous_def initial_def)
  have m: "credentials_match sample_runtime \<lparr>email_c = ''A@X.com'', password_c = ''p1''\<rparr> alice"
    by (simp add: credentials_match_def alice_def sample_runtime_simps ascii_lower_sample)
  have s: "is_successful_login sample_runtime ?l initial"
    by (simp add: login_unfold fetchUsers_def fetchUsers_try_def ok_def Let_def m)
  from C10_session_transitions [of sample_runtime "[]" initial ?l] s
  have l: "authenticated (step sample_runtime ?l initial)"
    by blast
  have d: "\<not> is_successful_login sample_runtime ?d (step sample_runtime ?l initial)" "?d \<noteq> Logout"
    by simp_all
  from C10_session_transitions [of sample_runtime "[]" "step sample_runtime ?l initial" ?d] d
  have "user (step sample_runtime ?d (step sample_runtime ?l initial)) = user (step sample_runtime ?l initial)"
    "isAuthenticated (step sample_runtime ?d (step sample_runtime ?l initial)) = isAuthenticated (step sample_runtime ?l initial)"
    by blast+
  with l have r: "authenticated (run sample_runtime [?l, ?d] initial)"
    by (simp add: authenticated_def)
  from C10_session_transitions [of sample_runtime "[]" "run sample_runtime [?l, ?d] initial" Logout]
  have o: "anonymous (step sample_runtime Logout (run sample_runtime [?l, ?d] initial))"
    by blast
  from a s l d(2) r o show ?thesis
    by blast
qed

end
